theory Spec2Isabelle
  imports Main "HOL-Library.Sublist" "HOL-Library.AList"
begin

section \<open>Pulumi over HTTP: the site handlers of \<^verbatim>\<open>nodejs/pulumiOverHttp-ts/index.ts\<close>\<close>

text \<open>
  The file under verification is an express application with five request handlers
  (\<^verbatim>\<open>createHandler\<close>, \<^verbatim>\<open>listHandler\<close>, \<^verbatim>\<open>getHandler\<close>, \<^verbatim>\<open>updateHandler\<close>,
  \<^verbatim>\<open>deleteHandler\<close>) over the Pulumi Automation API.  Each handler is a \<^verbatim>\<open>try\<close> block of
  awaited engine calls followed by a \<^verbatim>\<open>catch\<close> that maps the thrown error to an HTTP status.

  The Automation API (\<^verbatim>\<open>LocalWorkspace\<close>, \<^verbatim>\<open>Stack\<close>) is an external library.  The handlers
  are therefore modelled over an arbitrary engine: a record of operations on an abstract
  engine state \<open>'s\<close>, each returning either the thrown error or its result, together with
  the new engine state.  Every engine call a handler makes is also appended to a trace, so
  that the order of the calls can be stated.
\<close>

subsection \<open>Errors, requests and responses\<close>

text \<open>
  The errors a handler can catch.  \<^verbatim>\<open>StackAlreadyExistsError\<close>, \<^verbatim>\<open>StackNotFoundError\<close> and
  \<^verbatim>\<open>ConcurrentUpdateError\<close> are the three subclasses of the library's \<^verbatim>\<open>CommandError\<close> the
  handlers test with \<^verbatim>\<open>instanceof\<close>; \<open>CommandError\<close> stands for every other engine failure
  (with its message), and \<open>TypeError\<close> for JavaScript's error on reading a property of
  \<^verbatim>\<open>undefined\<close> (with the name of the missing property).
\<close>

datatype error =
    StackAlreadyExistsError
  | StackNotFoundError
  | ConcurrentUpdateError
  | CommandError string
  | TypeError string

text \<open>\<^verbatim>\<open>req.params.id\<close>, \<^verbatim>\<open>req.body.id\<close> and \<^verbatim>\<open>req.body.content\<close>.\<close>

record request =
  params_id :: string
  body_id :: string
  body_content :: string

text \<open>
  What a handler sends: \<^verbatim>\<open>res.json({id, url})\<close>, \<^verbatim>\<open>res.json({ids})\<close>, \<^verbatim>\<open>res.status(n).send(text)\<close>,
  \<^verbatim>\<open>res.status(500).send(e)\<close> and \<^verbatim>\<open>res.status(200).end()\<close>.  \<^verbatim>\<open>res.json\<close> leaves the status
  at express's default, 200.
\<close>

datatype body =
    NoBody
  | Text string
  | SiteJson string string
  | IdsJson "string list"
  | ErrorJson error

record response =
  status :: nat
  body :: body

subsection \<open>The Pulumi program\<close>

text \<open>
  A Pulumi program declares resources; an argument of a resource is a literal, an output
  of another resource, or a value computed from outputs (\<^verbatim>\<open>apply\<close>, \<^verbatim>\<open>pulumi.interpolate\<close>).
\<close>

datatype pvalue =
    Lit string
  | Flag bool
  | Number int
  | OutputOf string string
  | Apply pvalue "string \<Rightarrow> string"
  | Interpolate "pvalue list"
  | Object "(string \<times> pvalue) list"
  | Array "pvalue list"

record resource =
  rtype :: string
  rname :: string
  args :: "(string \<times> pvalue) list"

datatype program = Program "resource list" "(string \<times> pvalue) list"

text \<open>JavaScript's \<^verbatim>\<open>s.replace(pat, rep)\<close> for a string pattern: the first occurrence only.\<close>

fun replace :: "string \<Rightarrow> string \<Rightarrow> string \<Rightarrow> string" where
  "replace [] pat rep = (if pat = [] then rep else [])"
| "replace (c # cs) pat rep =
     (if prefix pat (c # cs) then rep @ drop (length pat) (c # cs)
      else c # replace cs pat rep)"

definition projectName :: string where
  "projectName = ''pulumi_over_http''"

text \<open>
  \<^verbatim>\<open>createPulumiProgram(content)\<close>: the resources in the order the program constructs them,
  and the exported outputs.  \<open>OutputOf r p\<close> is the output \<open>p\<close> of the resource whose
  logical name is \<open>r\<close>.
\<close>

definition createPulumiProgram :: "string \<Rightarrow> program" where
  "createPulumiProgram content =
    (let resourceGroupName = OutputOf ''resourceGroup'' ''name'';
         storageAccountName = OutputOf ''storageaccount'' ''name'';
         endpointOrigin =
           Apply (OutputOf ''storageaccount'' ''primaryEndpoints.web'')
             (\<lambda>web. replace (replace web ''https://'' '''') ''/'' '''');
         cdnEndpoint =
           Interpolate [Lit ''https://'', OutputOf ''endpoint'' ''hostName'', Lit ''/'']
     in Program
      [\<lparr>rtype = ''resources.ResourceGroup'', rname = ''resourceGroup'', args = []\<rparr>,
       \<lparr>rtype = ''cdn.Profile'', rname = ''profile'', args =
          [(''resourceGroupName'', resourceGroupName),
           (''sku'', Object [(''name'', Lit ''Standard_Microsoft'')])]\<rparr>,
       \<lparr>rtype = ''storage.StorageAccount'', rname = ''storageaccount'', args =
          [(''enableHttpsTrafficOnly'', Flag True),
           (''kind'', Lit ''StorageV2''),
           (''resourceGroupName'', resourceGroupName),
           (''sku'', Object [(''name'', Lit ''Standard_LRS'')])]\<rparr>,
       \<lparr>rtype = ''storage.StorageAccountStaticWebsite'', rname = ''staticWebsite'', args =
          [(''accountName'', storageAccountName),
           (''resourceGroupName'', resourceGroupName),
           (''indexDocument'', Lit ''index.html'')]\<rparr>,
       \<lparr>rtype = ''storage.Blob'', rname = ''index.html'', args =
          [(''resourceGroupName'', resourceGroupName),
           (''accountName'', storageAccountName),
           (''containerName'', OutputOf ''staticWebsite'' ''containerName''),
           (''source'', Lit content),
           (''contentType'', Lit ''text/html'')]\<rparr>,
       \<lparr>rtype = ''cdn.Endpoint'', rname = ''endpoint'', args =
          [(''endpointName'', Apply storageAccountName (\<lambda>sa. ''cdn-endpnt-'' @ sa)),
           (''isHttpAllowed'', Flag False),
           (''isHttpsAllowed'', Flag True),
           (''originHostHeader'', endpointOrigin),
           (''origins'', Array [Object
              [(''hostName'', endpointOrigin),
               (''httpsPort'', Number 443),
               (''name'', Lit ''origin-storage-account'')]]),
           (''profileName'', OutputOf ''profile'' ''name''),
           (''queryStringCachingBehavior'', Lit ''NotSet''),
           (''resourceGroupName'', resourceGroupName)]\<rparr>]
      [(''websiteUrl'', cdnEndpoint)])"

text \<open>The inline program \<^verbatim>\<open>async () => { }\<close> of \<^verbatim>\<open>getHandler\<close> and \<^verbatim>\<open>deleteHandler\<close>.\<close>

definition emptyProgram :: program where
  "emptyProgram = Program [] []"

subsection \<open>The engine interface\<close>

text \<open>\<^verbatim>\<open>ConfigValue\<close> and \<^verbatim>\<open>OutputValue\<close> of the Automation API.\<close>

record config_value =
  cv_value :: string
  cv_secret :: "bool option"

record output_value =
  ov_value :: string
  ov_secret :: bool

type_synonym output_map = "string \<rightharpoonup> output_value"

text \<open>Of \<^verbatim>\<open>UpResult\<close> and \<^verbatim>\<open>StackSummary\<close> the handlers read one field each.\<close>

record up_result =
  upres_outputs :: output_map

record stack_summary =
  summary_name :: string

record project_settings =
  ps_name :: string
  ps_runtime :: string

text \<open>
  The operations of the Automation API the handlers call, over an engine state \<open>'s\<close>,
  stack handles \<open>'h\<close> (a \<^verbatim>\<open>Stack\<close> object) and workspace handles \<open>'w\<close>.  A call returns
  \<open>Inl e\<close> when its promise rejects with \<open>e\<close>.
\<close>

record ('s, 'h, 'w) engine =
  createStack :: "string \<Rightarrow> string \<Rightarrow> program \<Rightarrow> 's \<Rightarrow> (error + 'h) \<times> 's"
  selectStack :: "string \<Rightarrow> string \<Rightarrow> program \<Rightarrow> 's \<Rightarrow> (error + 'h) \<times> 's"
  setConfig :: "'h \<Rightarrow> string \<Rightarrow> config_value \<Rightarrow> 's \<Rightarrow> (error + unit) \<times> 's"
  up :: "'h \<Rightarrow> 's \<Rightarrow> (error + up_result) \<times> 's"
  destroy :: "'h \<Rightarrow> 's \<Rightarrow> (error + unit) \<times> 's"
  outputs :: "'h \<Rightarrow> 's \<Rightarrow> (error + output_map) \<times> 's"
  workspace :: "'h \<Rightarrow> 'w"
  removeStack :: "'w \<Rightarrow> string \<Rightarrow> 's \<Rightarrow> (error + unit) \<times> 's"
  create :: "project_settings \<Rightarrow> 's \<Rightarrow> (error + 'w) \<times> 's"
  listStacks :: "'w \<Rightarrow> 's \<Rightarrow> (error + stack_summary list) \<times> 's"

text \<open>The engine calls a handler makes, as they appear in its trace.\<close>

datatype ('h, 'w) call =
    CreateStack string string program
  | SelectStack string string program
  | SetConfig 'h string config_value
  | Up 'h
  | Destroy 'h
  | Outputs 'h
  | RemoveStack 'w string
  | Create project_settings
  | ListStacks 'w

text \<open>The state a handler runs in: the engine's state and the calls made so far.\<close>

record ('s, 'h, 'w) run =
  est :: 's
  calls :: "('h, 'w) call list"

definition start :: "'s \<Rightarrow> ('s, 'h, 'w) run" where
  "start s = \<lparr>est = s, calls = []\<rparr>"

type_synonym ('a, 's, 'h, 'w) action = "('s, 'h, 'w) run \<Rightarrow> (error + 'a) \<times> ('s, 'h, 'w) run"

text \<open>An engine call: run the operation on the engine state and record the call.\<close>

definition invoke ::
  "('h, 'w) call \<Rightarrow> ('s \<Rightarrow> (error + 'a) \<times> 's) \<Rightarrow> ('a, 's, 'h, 'w) action" where
  "invoke c f r =
     (case f (est r) of (res, s') \<Rightarrow> (res, \<lparr>est = s', calls = calls r @ [c]\<rparr>))"

text \<open>
  \<^verbatim>\<open>const x = await m; k(x)\<close> inside a \<^verbatim>\<open>try\<close> block: when \<open>m\<close> throws, the rest of the
  block is skipped.
\<close>

definition await ::
  "('a, 's, 'h, 'w) action \<Rightarrow> ('a \<Rightarrow> ('b, 's, 'h, 'w) action) \<Rightarrow> ('b, 's, 'h, 'w) action" where
  "await m k r = (case m r of (Inl e, r') \<Rightarrow> (Inl e, r') | (Inr a, r') \<Rightarrow> k a r')"

definition send :: "response \<Rightarrow> (response, 's, 'h, 'w) action" where
  "send resp r = (Inr resp, r)"

text \<open>
  \<^verbatim>\<open>outs.websiteUrl.value\<close>: when the map has no \<^verbatim>\<open>websiteUrl\<close>, \<^verbatim>\<open>outs.websiteUrl\<close> is
  \<^verbatim>\<open>undefined\<close> and reading its \<^verbatim>\<open>value\<close> throws a \<^verbatim>\<open>TypeError\<close>.
\<close>

definition websiteUrl_value :: "output_map \<Rightarrow> (string, 's, 'h, 'w) action" where
  "websiteUrl_value outs r =
     (case outs ''websiteUrl'' of
        None \<Rightarrow> (Inl (TypeError ''value''), r)
      | Some ov \<Rightarrow> (Inr (ov_value ov), r))"

definition region :: config_value where
  "region = \<lparr>cv_value = ''us-west-2'', cv_secret = None\<rparr>"

subsection \<open>The handlers\<close>

text \<open>
  Each handler is its \<^verbatim>\<open>try\<close> block (\<open>\<dots>Body\<close>: the awaited calls in the source's order,
  ending in the response it sends) and the \<^verbatim>\<open>catch\<close> that turns a thrown error into a
  response.  A handler returns the response and the run it leaves.  The installation of
  the plugin at boot and the registration of the routes with express are not modelled.
\<close>

definition quoted :: "string \<Rightarrow> string" where
  "quoted s = [CHR 0x22] @ s @ [CHR 0x22]"

text \<open>\<^verbatim>\<open>createHandler\<close>, lines 90 to 112.\<close>

definition createBody ::
  "('s, 'h, 'w) engine \<Rightarrow> request \<Rightarrow> (response, 's, 'h, 'w) action" where
  "createBody eng req =
    (let stackName = body_id req; content = body_content req in
     await (invoke (CreateStack stackName projectName (createPulumiProgram content))
              (createStack eng stackName projectName (createPulumiProgram content)))
       (\<lambda>stack.
     await (invoke (SetConfig stack ''aws:region'' region)
              (setConfig eng stack ''aws:region'' region))
       (\<lambda>_.
     await (invoke (Up stack) (up eng stack))
       (\<lambda>upRes.
     await (websiteUrl_value (upres_outputs upRes))
       (\<lambda>url.
     send \<lparr>status = 200, body = SiteJson stackName url\<rparr>)))))"

definition createHandler ::
  "('s, 'h, 'w) engine \<Rightarrow> request \<Rightarrow> ('s, 'h, 'w) run \<Rightarrow> response \<times> ('s, 'h, 'w) run" where
  "createHandler eng req r =
    (let stackName = body_id req in
     case createBody eng req r of
       (Inr resp, r') \<Rightarrow> (resp, r')
     | (Inl e, r') \<Rightarrow>
         (if e = StackAlreadyExistsError
          then \<lparr>status = 409, body = Text (''stack '' @ quoted stackName @ '' already exists'')\<rparr>
          else \<lparr>status = 500, body = ErrorJson e\<rparr>,
          r'))"

text \<open>\<^verbatim>\<open>listHandler\<close>, lines 114 to 123.\<close>

definition listBody ::
  "('s, 'h, 'w) engine \<Rightarrow> request \<Rightarrow> (response, 's, 'h, 'w) action" where
  "listBody eng req =
    (let settings = \<lparr>ps_name = projectName, ps_runtime = ''nodejs''\<rparr> in
     await (invoke (Create settings) (create eng settings))
       (\<lambda>ws.
     await (invoke (ListStacks ws) (listStacks eng ws))
       (\<lambda>stacks.
     send \<lparr>status = 200, body = IdsJson (map summary_name stacks)\<rparr>)))"

definition listHandler ::
  "('s, 'h, 'w) engine \<Rightarrow> request \<Rightarrow> ('s, 'h, 'w) run \<Rightarrow> response \<times> ('s, 'h, 'w) run" where
  "listHandler eng req r =
    (case listBody eng req r of
       (Inr resp, r') \<Rightarrow> (resp, r')
     | (Inl e, r') \<Rightarrow> (\<lparr>status = 500, body = ErrorJson e\<rparr>, r'))"

text \<open>\<^verbatim>\<open>getHandler\<close>, lines 125 to 144.\<close>

definition getBody ::
  "('s, 'h, 'w) engine \<Rightarrow> request \<Rightarrow> (response, 's, 'h, 'w) action" where
  "getBody eng req =
    (let stackName = params_id req in
     await (invoke (SelectStack stackName projectName emptyProgram)
              (selectStack eng stackName projectName emptyProgram))
       (\<lambda>stack.
     await (invoke (Outputs stack) (outputs eng stack))
       (\<lambda>outs.
     await (websiteUrl_value outs)
       (\<lambda>url.
     send \<lparr>status = 200, body = SiteJson stackName url\<rparr>))))"

definition getHandler ::
  "('s, 'h, 'w) engine \<Rightarrow> request \<Rightarrow> ('s, 'h, 'w) run \<Rightarrow> response \<times> ('s, 'h, 'w) run" where
  "getHandler eng req r =
    (let stackName = params_id req in
     case getBody eng req r of
       (Inr resp, r') \<Rightarrow> (resp, r')
     | (Inl e, r') \<Rightarrow>
         (if e = StackNotFoundError
          then \<lparr>status = 404, body = Text (''stack '' @ quoted stackName @ '' does not exist'')\<rparr>
          else \<lparr>status = 500, body = ErrorJson e\<rparr>,
          r'))"

text \<open>\<^verbatim>\<open>updateHandler\<close>, lines 146 to 170.\<close>

definition updateBody ::
  "('s, 'h, 'w) engine \<Rightarrow> request \<Rightarrow> (response, 's, 'h, 'w) action" where
  "updateBody eng req =
    (let stackName = params_id req; content = body_content req in
     await (invoke (SelectStack stackName projectName (createPulumiProgram content))
              (selectStack eng stackName projectName (createPulumiProgram content)))
       (\<lambda>stack.
     await (invoke (SetConfig stack ''aws:region'' region)
              (setConfig eng stack ''aws:region'' region))
       (\<lambda>_.
     await (invoke (Up stack) (up eng stack))
       (\<lambda>upRes.
     await (websiteUrl_value (upres_outputs upRes))
       (\<lambda>url.
     send \<lparr>status = 200, body = SiteJson stackName url\<rparr>)))))"

definition updateHandler ::
  "('s, 'h, 'w) engine \<Rightarrow> request \<Rightarrow> ('s, 'h, 'w) run \<Rightarrow> response \<times> ('s, 'h, 'w) run" where
  "updateHandler eng req r =
    (let stackName = params_id req in
     case updateBody eng req r of
       (Inr resp, r') \<Rightarrow> (resp, r')
     | (Inl e, r') \<Rightarrow>
         (if e = StackNotFoundError
          then \<lparr>status = 404, body = Text (''stack '' @ quoted stackName @ '' does not exist'')\<rparr>
          else if e = ConcurrentUpdateError
          then \<lparr>status = 409,
                 body = Text (''stack '' @ quoted stackName @ '' already has update in progress'')\<rparr>
          else \<lparr>status = 500, body = ErrorJson e\<rparr>,
          r'))"

text \<open>\<^verbatim>\<open>deleteHandler\<close>, lines 172 to 195.\<close>

definition deleteBody ::
  "('s, 'h, 'w) engine \<Rightarrow> request \<Rightarrow> (response, 's, 'h, 'w) action" where
  "deleteBody eng req =
    (let stackName = params_id req in
     await (invoke (SelectStack stackName projectName emptyProgram)
              (selectStack eng stackName projectName emptyProgram))
       (\<lambda>stack.
     await (invoke (Destroy stack) (destroy eng stack))
       (\<lambda>_.
     await (invoke (RemoveStack (workspace eng stack) stackName)
              (removeStack eng (workspace eng stack) stackName))
       (\<lambda>_.
     send \<lparr>status = 200, body = NoBody\<rparr>))))"

definition deleteHandler ::
  "('s, 'h, 'w) engine \<Rightarrow> request \<Rightarrow> ('s, 'h, 'w) run \<Rightarrow> response \<times> ('s, 'h, 'w) run" where
  "deleteHandler eng req r =
    (let stackName = params_id req in
     case deleteBody eng req r of
       (Inr resp, r') \<Rightarrow> (resp, r')
     | (Inl e, r') \<Rightarrow>
         (if e = StackNotFoundError
          then \<lparr>status = 404, body = Text (''stack '' @ quoted stackName @ '' does not exist'')\<rparr>
          else if e = ConcurrentUpdateError
          then \<lparr>status = 409,
                 body = Text (''stack '' @ quoted stackName @ '' already has update in progress'')\<rparr>
          else \<lparr>status = 500, body = ErrorJson e\<rparr>,
          r'))"

subsection \<open>A reference engine\<close>

text \<open>
  Modelled from the spec: the provisioning engine (the Pulumi Automation API and the CLI
  behind it), which is an external library and not part of this repository.  The model
  follows the collaborator interface of the specification (section 6) and its deployment
  record (section 3): a named deployment exists or not, \<open>createNamedDeployment\<close> answers
  \<open>AlreadyExists\<close> for a name that exists, \<open>selectNamedDeployment\<close> answers \<open>NotFound\<close> for
  one that does not, \<open>apply\<close> yields the outputs or an engine error, \<open>destroy\<close> tears the
  resources down, \<open>removeDeployment\<close> forgets the name, and a mutation on a deployment that
  already has one in flight is refused.  What the cloud provider answers to an apply or a
  teardown is a parameter of the model.
\<close>

record stack_state =
  config :: "string \<rightharpoonup> config_value"
  st_outputs :: output_map
  applied :: "program option"
  locked :: bool

record cloud =
  deploy :: "string \<Rightarrow> program \<Rightarrow> error + output_map"
  teardown :: "string \<Rightarrow> error option"

record handle =
  h_name :: string
  h_program :: program

type_synonym ref_state = "(string \<times> stack_state) list"

text \<open>
  Modelled from the spec: a deployment \<open>createNamedDeployment\<close> has just registered, with
  no configuration, no outputs and nothing applied.
\<close>

definition new_stack :: stack_state where
  "new_stack = \<lparr>config = Map.empty, st_outputs = Map.empty, applied = None, locked = False\<rparr>"

text \<open>
  Modelled from the spec: \<open>createNamedDeployment(id, namespace, program) -> Handle | AlreadyExists\<close>.
\<close>

definition ref_createStack :: "string \<Rightarrow> string \<Rightarrow> program \<Rightarrow> ref_state \<Rightarrow> (error + handle) \<times> ref_state" where
  "ref_createStack n project prog s =
     (case map_of s n of
        Some st \<Rightarrow> (Inl StackAlreadyExistsError, s)
      | None \<Rightarrow> (Inr \<lparr>h_name = n, h_program = prog\<rparr>, s @ [(n, new_stack)]))"

text \<open>
  Modelled from the spec: \<open>selectNamedDeployment(id, namespace, program) -> Handle | NotFound\<close>.
\<close>

definition ref_selectStack :: "string \<Rightarrow> string \<Rightarrow> program \<Rightarrow> ref_state \<Rightarrow> (error + handle) \<times> ref_state" where
  "ref_selectStack n project prog s =
     (case map_of s n of
        None \<Rightarrow> (Inl StackNotFoundError, s)
      | Some st \<Rightarrow> (Inr \<lparr>h_name = n, h_program = prog\<rparr>, s))"

text \<open>Modelled from the spec: \<open>setParameter(Handle, key, value) -> ()\<close>.\<close>

definition ref_setConfig :: "handle \<Rightarrow> string \<Rightarrow> config_value \<Rightarrow> ref_state \<Rightarrow> (error + unit) \<times> ref_state" where
  "ref_setConfig h k v s =
     (case map_of s (h_name h) of
        None \<Rightarrow> (Inl StackNotFoundError, s)
      | Some st \<Rightarrow> (Inr (), AList.update (h_name h) (st\<lparr>config := (config st)(k \<mapsto> v)\<rparr>) s))"

text \<open>
  Modelled from the spec: \<open>apply(Handle) -> Outputs | EngineError\<close>.  A deployment with a
  mutation in flight refuses the apply; a failed apply leaves the deployment as it was; a
  successful one replaces its outputs and its applied program.
\<close>

definition ref_up :: "cloud \<Rightarrow> handle \<Rightarrow> ref_state \<Rightarrow> (error + up_result) \<times> ref_state" where
  "ref_up cl h s =
     (case map_of s (h_name h) of
        None \<Rightarrow> (Inl StackNotFoundError, s)
      | Some st \<Rightarrow>
          if locked st then (Inl ConcurrentUpdateError, s)
          else (case deploy cl (h_name h) (h_program h) of
                  Inl e \<Rightarrow> (Inl e, s)
                | Inr outs \<Rightarrow>
                    (Inr \<lparr>upres_outputs = outs\<rparr>,
                     AList.update (h_name h)
                       (st\<lparr>st_outputs := outs, applied := Some (h_program h)\<rparr>) s)))"

text \<open>
  Modelled from the spec: \<open>destroy(Handle) -> () | EngineError\<close>, the teardown of the
  resources; the name stays registered.
\<close>

definition ref_destroy :: "cloud \<Rightarrow> handle \<Rightarrow> ref_state \<Rightarrow> (error + unit) \<times> ref_state" where
  "ref_destroy cl h s =
     (case map_of s (h_name h) of
        None \<Rightarrow> (Inl StackNotFoundError, s)
      | Some st \<Rightarrow>
          if locked st then (Inl ConcurrentUpdateError, s)
          else (case teardown cl (h_name h) of
                  Some e \<Rightarrow> (Inl e, s)
                | None \<Rightarrow>
                    (Inr (),
                     AList.update (h_name h)
                       (st\<lparr>st_outputs := Map.empty, applied := None\<rparr>) s)))"

text \<open>Modelled from the spec: \<open>getOutputs(Handle) -> Outputs\<close>.\<close>

definition ref_outputs :: "handle \<Rightarrow> ref_state \<Rightarrow> (error + output_map) \<times> ref_state" where
  "ref_outputs h s =
     (case map_of s (h_name h) of
        None \<Rightarrow> (Inl StackNotFoundError, s)
      | Some st \<Rightarrow> (Inr (st_outputs st), s))"

text \<open>Modelled from the spec: \<open>removeDeployment(Handle) -> ()\<close>, the registry removal.\<close>

definition ref_removeStack :: "unit \<Rightarrow> string \<Rightarrow> ref_state \<Rightarrow> (error + unit) \<times> ref_state" where
  "ref_removeStack ws n s =
     (case map_of s n of
        None \<Rightarrow> (Inl StackNotFoundError, s)
      | Some st \<Rightarrow> (Inr (), AList.delete n s))"

text \<open>
  Modelled from the spec: the engine of the collaborator interface, assembled from the
  operations above; \<open>listDeployments(namespace) -> [id]\<close> reports the registered names in
  the engine's order.
\<close>

definition ref_engine :: "cloud \<Rightarrow> (ref_state, handle, unit) engine" where
  "ref_engine cl =
     \<lparr>createStack = ref_createStack,
      selectStack = ref_selectStack,
      setConfig = ref_setConfig,
      up = ref_up cl,
      destroy = ref_destroy cl,
      outputs = ref_outputs,
      workspace = (\<lambda>h. ()),
      removeStack = ref_removeStack,
      create = (\<lambda>settings s. (Inr (), s)),
      listStacks = (\<lambda>ws s. (Inr (map (\<lambda>(n, st). \<lparr>summary_name = n\<rparr>) s), s))\<rparr>"

subsection \<open>Example data\<close>

text \<open>
  A cloud in which every apply succeeds and exports a \<^verbatim>\<open>websiteUrl\<close>, a cloud in which every
  apply and every teardown fails with the given message, the request of the specification's
  scenario, and the engine state in which \<^verbatim>\<open>site-a\<close> is deployed.
\<close>

definition example_cloud :: cloud where
  "example_cloud =
     \<lparr>deploy = (\<lambda>n p. Inr [''websiteUrl'' \<mapsto>
          \<lparr>ov_value = ''https://cdn-endpnt-'' @ n @ ''.azureedge.net/'', ov_secret = False\<rparr>]),
      teardown = (\<lambda>n. None)\<rparr>"

definition failing_cloud :: "string \<Rightarrow> cloud" where
  "failing_cloud msg =
     \<lparr>deploy = (\<lambda>n p. Inl (CommandError msg)), teardown = (\<lambda>n. Some (CommandError msg))\<rparr>"

definition site_a :: request where
  "site_a = \<lparr>params_id = ''site-a'', body_id = ''site-a'', body_content = ''<h1>A</h1>''\<rparr>"

definition site_a_outputs :: output_map where
  "site_a_outputs =
     [''websiteUrl'' \<mapsto>
        \<lparr>ov_value = ''https://cdn-endpnt-site-a.azureedge.net/'', ov_secret = False\<rparr>]"

definition site_a_stack :: handle where
  "site_a_stack = \<lparr>h_name = ''site-a'', h_program = createPulumiProgram ''<h1>A</h1>''\<rparr>"

definition site_a_active :: ref_state where
  "site_a_active =
     [(''site-a'', \<lparr>config = [''aws:region'' \<mapsto> region], st_outputs = site_a_outputs,
         applied = Some (createPulumiProgram ''<h1>A</h1>''), locked = False\<rparr>)]"

text \<open>
  \<^verbatim>\<open>site-a\<close> with a mutation in flight, \<^verbatim>\<open>site-a\<close> created but never applied, a request
  updating \<^verbatim>\<open>site-a\<close>, and an engine that refuses every apply as concurrent.
\<close>

definition site_a_locked :: ref_state where
  "site_a_locked =
     [(''site-a'', \<lparr>config = [''aws:region'' \<mapsto> region], st_outputs = site_a_outputs,
         applied = Some (createPulumiProgram ''<h1>A</h1>''), locked = True\<rparr>)]"

definition site_a_created :: ref_state where
  "site_a_created =
     [(''site-a'', \<lparr>config = [''aws:region'' \<mapsto> region], st_outputs = Map.empty,
         applied = None, locked = False\<rparr>)]"

definition site_a_update :: request where
  "site_a_update = \<lparr>params_id = ''site-a'', body_id = [], body_content = ''<h1>B</h1>''\<rparr>"

definition site_a_stack_b :: handle where
  "site_a_stack_b = \<lparr>h_name = ''site-a'', h_program = createPulumiProgram ''<h1>B</h1>''\<rparr>"

definition site_a_bare :: handle where
  "site_a_bare = \<lparr>h_name = ''site-a'', h_program = emptyProgram\<rparr>"

definition busy_engine :: "(ref_state, handle, unit) engine" where
  "busy_engine = (ref_engine example_cloud)\<lparr>up := (\<lambda>h s. (Inl ConcurrentUpdateError, s))\<rparr>"


section \<open>Properties of the handlers\<close>

lemmas run_defs = await_def invoke_def send_def start_def websiteUrl_value_def Let_def

lemmas handler_defs = createHandler_def createBody_def getHandler_def getBody_def
  updateHandler_def updateBody_def deleteHandler_def deleteBody_def listHandler_def listBody_def

lemmas ref_defs = ref_engine_def ref_createStack_def ref_selectStack_def ref_setConfig_def
  ref_up_def ref_destroy_def ref_outputs_def ref_removeStack_def new_stack_def

text \<open>
  The scenario's first step on the reference engine: creating \<^verbatim>\<open>site-a\<close> in the empty
  engine answers 200 with the URL and leaves \<^verbatim>\<open>site-a\<close> deployed.
\<close>

lemma create_site_a:
  "createHandler (ref_engine example_cloud) site_a (start []) =
     (\<lparr>status = 200, body = SiteJson ''site-a'' ''https://cdn-endpnt-site-a.azureedge.net/''\<rparr>,
      \<lparr>est = site_a_active,
       calls = [CreateStack ''site-a'' projectName (createPulumiProgram ''<h1>A</h1>''),
                SetConfig site_a_stack ''aws:region'' region,
                Up site_a_stack]\<rparr>)"
  by (simp add: createHandler_def createBody_def run_defs ref_defs example_cloud_def site_a_def
      site_a_active_def site_a_outputs_def site_a_stack_def)

subsection \<open>Creating an identity that exists\<close>

text \<open>
  C2.  The handler learns that an identity exists from the engine: \<^verbatim>\<open>createStack\<close> rejects
  with \<^verbatim>\<open>StackAlreadyExistsError\<close>.  Whenever the engine gives that answer (leaving its own
  state as it was), \<^verbatim>\<open>POST /sites\<close> responds 409 with the text
  \<^verbatim>\<open>stack "<id>" already exists\<close>, and the engine state after the request is the state
  before it: the existing deployment, its content and its outputs included, is unchanged.
\<close>

theorem create_existing_conflict:
  assumes "createStack eng (body_id req) projectName (createPulumiProgram (body_content req)) s
             = (Inl StackAlreadyExistsError, s)"
  shows "fst (createHandler eng req (start s)) =
           \<lparr>status = 409, body = Text (''stack '' @ quoted (body_id req) @ '' already exists'')\<rparr>
         \<and> est (snd (createHandler eng req (start s))) = s"
  using assms by (simp add: createHandler_def createBody_def run_defs)

text \<open>
  On the reference engine: \<^verbatim>\<open>site-a\<close> is created, and created again.  The second request
  is answered 409 and leaves the deployment of the first as it was.
\<close>

theorem create_existing_conflict_witness:
  "est (snd (createHandler (ref_engine example_cloud) site_a (start []))) = site_a_active
   \<and> createStack (ref_engine example_cloud) (body_id site_a) projectName
        (createPulumiProgram (body_content site_a)) site_a_active
        = (Inl StackAlreadyExistsError, site_a_active)
   \<and> fst (createHandler (ref_engine example_cloud) site_a (start site_a_active)) =
        \<lparr>status = 409, body = Text (''stack '' @ quoted ''site-a'' @ '' already exists'')\<rparr>
   \<and> est (snd (createHandler (ref_engine example_cloud) site_a (start site_a_active))) = site_a_active"
proof -
  have c: "est (snd (createHandler (ref_engine example_cloud) site_a (start []))) = site_a_active"
    by (simp add: create_site_a)
  have b: "body_id site_a = ''site-a''"
    by (simp add: site_a_def)
  have h: "createStack (ref_engine example_cloud) (body_id site_a) projectName
        (createPulumiProgram (body_content site_a)) site_a_active
        = (Inl StackAlreadyExistsError, site_a_active)"
    by (simp add: ref_defs site_a_def site_a_active_def)
  from create_existing_conflict [OF h] c h show ?thesis
    unfolding b by simp
qed

subsection \<open>Operations on an identity that does not exist\<close>

text \<open>
  C3.  The handlers learn that an identity is absent from the engine: \<^verbatim>\<open>selectStack\<close>
  rejects with \<^verbatim>\<open>StackNotFoundError\<close>.  Whenever the engine gives that answer (leaving its
  own state as it was), each of \<^verbatim>\<open>GET\<close>, \<^verbatim>\<open>PUT\<close> and \<^verbatim>\<open>DELETE /sites/:id\<close> responds 404
  with the text \<^verbatim>\<open>stack "<id>" does not exist\<close>, and the engine state after the request is
  the state before it.  (\<^verbatim>\<open>PUT\<close> selects the stack with the program of the new content, the
  other two with the empty program; hence the two assumptions.)
\<close>

theorem absent_not_found:
  assumes "selectStack eng (params_id req) projectName emptyProgram s = (Inl StackNotFoundError, s)"
      and "selectStack eng (params_id req) projectName (createPulumiProgram (body_content req)) s
             = (Inl StackNotFoundError, s)"
  shows "fst (getHandler eng req (start s)) =
           \<lparr>status = 404, body = Text (''stack '' @ quoted (params_id req) @ '' does not exist'')\<rparr>
       \<and> est (snd (getHandler eng req (start s))) = s
       \<and> fst (updateHandler eng req (start s)) =
           \<lparr>status = 404, body = Text (''stack '' @ quoted (params_id req) @ '' does not exist'')\<rparr>
       \<and> est (snd (updateHandler eng req (start s))) = s
       \<and> fst (deleteHandler eng req (start s)) =
           \<lparr>status = 404, body = Text (''stack '' @ quoted (params_id req) @ '' does not exist'')\<rparr>
       \<and> est (snd (deleteHandler eng req (start s))) = s"
  using assms
  by (simp add: getHandler_def getBody_def updateHandler_def updateBody_def
      deleteHandler_def deleteBody_def run_defs)

text \<open>On the reference engine with no deployment at all, \<^verbatim>\<open>site-a\<close> is absent.\<close>

theorem absent_not_found_witness:
  "selectStack (ref_engine example_cloud) (params_id site_a) projectName emptyProgram []
     = (Inl StackNotFoundError, [])
   \<and> selectStack (ref_engine example_cloud) (params_id site_a) projectName
        (createPulumiProgram (body_content site_a)) [] = (Inl StackNotFoundError, [])
   \<and> status (fst (getHandler (ref_engine example_cloud) site_a (start []))) = 404
   \<and> status (fst (updateHandler (ref_engine example_cloud) site_a (start []))) = 404
   \<and> status (fst (deleteHandler (ref_engine example_cloud) site_a (start []))) = 404
   \<and> est (snd (getHandler (ref_engine example_cloud) site_a (start []))) = []
   \<and> est (snd (updateHandler (ref_engine example_cloud) site_a (start []))) = []
   \<and> est (snd (deleteHandler (ref_engine example_cloud) site_a (start []))) = []"
proof -
  have g: "selectStack (ref_engine example_cloud) (params_id site_a) projectName emptyProgram []
     = (Inl StackNotFoundError, [])"
    by (simp add: ref_defs)
  have u: "selectStack (ref_engine example_cloud) (params_id site_a) projectName
        (createPulumiProgram (body_content site_a)) [] = (Inl StackNotFoundError, [])"
    by (simp add: ref_defs)
  from absent_not_found [OF g u] g u show ?thesis
    by simp
qed

subsection \<open>Where the rejections are detected\<close>

text \<open>
  C4, as stated, does not hold: the handlers keep no registry of their own and reject
  nothing before calling the engine.  On the reference engine, \<^verbatim>\<open>POST\<close> for the deployed
  \<^verbatim>\<open>site-a\<close> is answered 409 after the call \<^verbatim>\<open>createStack\<close>, and \<^verbatim>\<open>GET\<close> for the absent
  \<^verbatim>\<open>site-a\<close> is answered 404 after the call \<^verbatim>\<open>selectStack\<close>: in both runs the trace of engine
  calls is not empty.
\<close>

theorem local_detection_counterexample:
  "status (fst (createHandler (ref_engine example_cloud) site_a (start site_a_active))) = 409
   \<and> calls (snd (createHandler (ref_engine example_cloud) site_a (start site_a_active)))
       = [CreateStack ''site-a'' projectName (createPulumiProgram ''<h1>A</h1>'')]
   \<and> status (fst (getHandler (ref_engine example_cloud) site_a (start []))) = 404
   \<and> calls (snd (getHandler (ref_engine example_cloud) site_a (start [])))
       = [SelectStack ''site-a'' projectName emptyProgram]"
  by (simp add: createHandler_def createBody_def getHandler_def getBody_def run_defs ref_defs
      site_a_def site_a_active_def)

text \<open>
  C4, amended.  The three outcomes are the engine's answers to calls the handlers always
  make.  When \<^verbatim>\<open>createStack\<close> rejects with \<^verbatim>\<open>StackAlreadyExistsError\<close>, \<^verbatim>\<open>POST\<close> responds 409
  and \<^verbatim>\<open>createStack\<close> is the only engine call of the request.  When \<^verbatim>\<open>selectStack\<close> rejects
  with \<^verbatim>\<open>StackNotFoundError\<close>, \<^verbatim>\<open>GET\<close>, \<^verbatim>\<open>PUT\<close> and \<^verbatim>\<open>DELETE\<close> respond 404 and \<^verbatim>\<open>selectStack\<close>
  is the only engine call of the request.  A conflict is the engine's
  \<^verbatim>\<open>ConcurrentUpdateError\<close> from \<^verbatim>\<open>up\<close> (for \<^verbatim>\<open>PUT\<close>, after \<^verbatim>\<open>selectStack\<close> and \<^verbatim>\<open>setConfig\<close>) or
  from \<^verbatim>\<open>destroy\<close> (for \<^verbatim>\<open>DELETE\<close>, after \<^verbatim>\<open>selectStack\<close>); the response is 409 and no engine
  call follows the refused one.
\<close>

theorem rejected_by_engine_call:
  "(createStack eng (body_id req) projectName (createPulumiProgram (body_content req)) s
      = (Inl StackAlreadyExistsError, s') \<longrightarrow>
    status (fst (createHandler eng req (start s))) = 409 \<and>
    calls (snd (createHandler eng req (start s)))
      = [CreateStack (body_id req) projectName (createPulumiProgram (body_content req))])
 \<and> (selectStack eng (params_id req) projectName emptyProgram s = (Inl StackNotFoundError, s') \<longrightarrow>
    status (fst (getHandler eng req (start s))) = 404 \<and>
    calls (snd (getHandler eng req (start s)))
      = [SelectStack (params_id req) projectName emptyProgram] \<and>
    status (fst (deleteHandler eng req (start s))) = 404 \<and>
    calls (snd (deleteHandler eng req (start s)))
      = [SelectStack (params_id req) projectName emptyProgram])
 \<and> (selectStack eng (params_id req) projectName (createPulumiProgram (body_content req)) s
      = (Inl StackNotFoundError, s') \<longrightarrow>
    status (fst (updateHandler eng req (start s))) = 404 \<and>
    calls (snd (updateHandler eng req (start s)))
      = [SelectStack (params_id req) projectName (createPulumiProgram (body_content req))])
 \<and> (selectStack eng (params_id req) projectName (createPulumiProgram (body_content req)) s
      = (Inr h, s1) \<and>
    setConfig eng h ''aws:region'' region s1 = (Inr (), s2) \<and>
    up eng h s2 = (Inl ConcurrentUpdateError, s3) \<longrightarrow>
    status (fst (updateHandler eng req (start s))) = 409 \<and>
    calls (snd (updateHandler eng req (start s)))
      = [SelectStack (params_id req) projectName (createPulumiProgram (body_content req)),
         SetConfig h ''aws:region'' region, Up h])
 \<and> (selectStack eng (params_id req) projectName emptyProgram s = (Inr h, s1) \<and>
    destroy eng h s1 = (Inl ConcurrentUpdateError, s2) \<longrightarrow>
    status (fst (deleteHandler eng req (start s))) = 409 \<and>
    calls (snd (deleteHandler eng req (start s)))
      = [SelectStack (params_id req) projectName emptyProgram, Destroy h])"
  by (simp add: createHandler_def createBody_def getHandler_def getBody_def
      updateHandler_def updateBody_def deleteHandler_def deleteBody_def run_defs)

text \<open>
  On the reference engine: \<^verbatim>\<open>site-a\<close> deployed (create), absent (get, delete, update), and
  with a mutation in flight (update, delete).
\<close>

theorem rejected_by_engine_call_witness:
  "status (fst (createHandler (ref_engine example_cloud) site_a (start site_a_active))) = 409
   \<and> calls (snd (createHandler (ref_engine example_cloud) site_a (start site_a_active)))
        = [CreateStack ''site-a'' projectName (createPulumiProgram ''<h1>A</h1>'')]
   \<and> status (fst (getHandler (ref_engine example_cloud) site_a_update (start []))) = 404
   \<and> calls (snd (getHandler (ref_engine example_cloud) site_a_update (start [])))
        = [SelectStack ''site-a'' projectName emptyProgram]
   \<and> status (fst (deleteHandler (ref_engine example_cloud) site_a_update (start []))) = 404
   \<and> calls (snd (deleteHandler (ref_engine example_cloud) site_a_update (start [])))
        = [SelectStack ''site-a'' projectName emptyProgram]
   \<and> status (fst (updateHandler (ref_engine example_cloud) site_a_update (start []))) = 404
   \<and> calls (snd (updateHandler (ref_engine example_cloud) site_a_update (start [])))
        = [SelectStack ''site-a'' projectName (createPulumiProgram ''<h1>B</h1>'')]
   \<and> status (fst (updateHandler (ref_engine example_cloud) site_a_update (start site_a_locked))) = 409
   \<and> calls (snd (updateHandler (ref_engine example_cloud) site_a_update (start site_a_locked)))
        = [SelectStack ''site-a'' projectName (createPulumiProgram ''<h1>B</h1>''),
           SetConfig site_a_stack_b ''aws:region'' region, Up site_a_stack_b]
   \<and> status (fst (deleteHandler (ref_engine example_cloud) site_a_update (start site_a_locked))) = 409
   \<and> calls (snd (deleteHandler (ref_engine example_cloud) site_a_update (start site_a_locked)))
        = [SelectStack ''site-a'' projectName emptyProgram, Destroy site_a_bare]"
proof -
  let ?eng = "ref_engine example_cloud"
  have ex: "createStack ?eng (body_id site_a) projectName
              (createPulumiProgram (body_content site_a)) site_a_active
              = (Inl StackAlreadyExistsError, site_a_active)"
    by (simp add: ref_defs site_a_def site_a_active_def)
  have nf: "selectStack ?eng (params_id site_a_update) projectName emptyProgram []
              = (Inl StackNotFoundError, [])"
    by (simp add: ref_defs)
  have nfu: "selectStack ?eng (params_id site_a_update) projectName
               (createPulumiProgram (body_content site_a_update)) []
               = (Inl StackNotFoundError, [])"
    by (simp add: ref_defs)
  have selu: "selectStack ?eng (params_id site_a_update) projectName
               (createPulumiProgram (body_content site_a_update)) site_a_locked
               = (Inr site_a_stack_b, site_a_locked)"
    by (simp add: ref_defs site_a_update_def site_a_locked_def site_a_stack_b_def)
  have cfg: "setConfig ?eng site_a_stack_b ''aws:region'' region site_a_locked
               = (Inr (), site_a_locked)"
    by (simp add: ref_defs site_a_locked_def site_a_stack_b_def)
  have busy: "up ?eng site_a_stack_b site_a_locked = (Inl ConcurrentUpdateError, site_a_locked)"
    by (simp add: ref_defs site_a_locked_def site_a_stack_b_def)
  have seld: "selectStack ?eng (params_id site_a_update) projectName emptyProgram site_a_locked
               = (Inr site_a_bare, site_a_locked)"
    by (simp add: ref_defs site_a_update_def site_a_locked_def site_a_bare_def)
  have busyd: "destroy ?eng site_a_bare site_a_locked = (Inl ConcurrentUpdateError, site_a_locked)"
    by (simp add: ref_defs site_a_locked_def site_a_bare_def)
  have ids: "body_id site_a = ''site-a''" "body_content site_a = ''<h1>A</h1>''"
    "params_id site_a_update = ''site-a''" "body_content site_a_update = ''<h1>B</h1>''"
    by (simp_all add: site_a_def site_a_update_def)
  from rejected_by_engine_call [of ?eng site_a site_a_active site_a_active]
       rejected_by_engine_call [of ?eng site_a_update "[]" "[]"]
       rejected_by_engine_call [of ?eng site_a_update site_a_locked site_a_locked
          site_a_stack_b site_a_locked site_a_locked site_a_locked]
       rejected_by_engine_call [of ?eng site_a_update site_a_locked site_a_locked
          site_a_bare site_a_locked site_a_locked site_a_locked]
       ex nf nfu selu cfg busy seld busyd
  show ?thesis
    unfolding ids by simp
qed

subsection \<open>An update the engine fails\<close>

text \<open>
  C5, as stated, does not hold: no handler keeps a \<open>lastError\<close>.  On the reference engine
  the update of the deployed \<^verbatim>\<open>site-a\<close> fails with the cloud's error and is answered 500;
  the state the request leaves is the same whatever the error was, so no function of that
  state gives the failure back.
\<close>

lemma failed_update_state:
  "est (snd (updateHandler (ref_engine (failing_cloud msg)) site_a_update (start site_a_active)))
     = site_a_active"
  by (simp add: updateHandler_def updateBody_def run_defs ref_defs site_a_update_def
      site_a_active_def failing_cloud_def)

theorem lastError_counterexample:
  "fst (updateHandler (ref_engine (failing_cloud ''quota exceeded'')) site_a_update
          (start site_a_active))
     = \<lparr>status = 500, body = ErrorJson (CommandError ''quota exceeded'')\<rparr>
   \<and> \<not> (\<exists>lastError. \<forall>msg.
         lastError (est (snd (updateHandler (ref_engine (failing_cloud msg)) site_a_update
                      (start site_a_active)))) = Some (CommandError msg))"
proof
  show "fst (updateHandler (ref_engine (failing_cloud ''quota exceeded'')) site_a_update
          (start site_a_active))
     = \<lparr>status = 500, body = ErrorJson (CommandError ''quota exceeded'')\<rparr>"
    by (simp add: updateHandler_def updateBody_def run_defs ref_defs site_a_update_def
      site_a_active_def failing_cloud_def)
next
  show "\<not> (\<exists>lastError. \<forall>msg.
         lastError (est (snd (updateHandler (ref_engine (failing_cloud msg)) site_a_update
                      (start site_a_active)))) = Some (CommandError msg))"
  proof
    assume "\<exists>lastError. \<forall>msg.
         lastError (est (snd (updateHandler (ref_engine (failing_cloud msg)) site_a_update
                      (start site_a_active)))) = Some (CommandError msg)"
    then obtain lastError :: "ref_state \<Rightarrow> error option" where
      rec: "\<And>msg. lastError site_a_active = Some (CommandError msg)"
      unfolding failed_update_state by blast
    from rec [of "''quota exceeded''"] rec [of "''timeout''"] show False
      by simp
  qed
qed

text \<open>
  C5, amended.  When \<^verbatim>\<open>PUT\<close> finds the stack and sets the region, and the engine's \<^verbatim>\<open>up\<close>
  then fails with an error \<open>e\<close>: \<^verbatim>\<open>up\<close> is called once and not again, the failure is answered
  once (500 with the error as body; 409 when the error is \<^verbatim>\<open>ConcurrentUpdateError\<close>, 404
  when it is \<^verbatim>\<open>StackNotFoundError\<close>), no engine call follows the failed \<^verbatim>\<open>up\<close>, and the state
  the request leaves is the state the engine's failed \<^verbatim>\<open>up\<close> returned: the handler records
  nothing of its own.
\<close>

theorem update_failure_surfaced_once:
  assumes sel: "selectStack eng (params_id req) projectName
                  (createPulumiProgram (body_content req)) s = (Inr h, s1)"
      and cfg: "setConfig eng h ''aws:region'' region s1 = (Inr (), s2)"
      and upf: "up eng h s2 = (Inl e, s3)"
  shows "updateHandler eng req (start s) =
     (if e = StackNotFoundError
      then \<lparr>status = 404, body = Text (''stack '' @ quoted (params_id req) @ '' does not exist'')\<rparr>
      else if e = ConcurrentUpdateError
      then \<lparr>status = 409,
             body = Text (''stack '' @ quoted (params_id req) @ '' already has update in progress'')\<rparr>
      else \<lparr>status = 500, body = ErrorJson e\<rparr>,
      \<lparr>est = s3,
       calls = [SelectStack (params_id req) projectName (createPulumiProgram (body_content req)),
                SetConfig h ''aws:region'' region, Up h]\<rparr>)"
  using assms by (simp add: updateHandler_def updateBody_def run_defs)

text \<open>
  On the reference engine, with a cloud that fails the apply: the deployed \<^verbatim>\<open>site-a\<close> keeps
  the program of its first content and its outputs.
\<close>

theorem update_failure_surfaced_once_witness:
  "updateHandler (ref_engine (failing_cloud ''quota exceeded'')) site_a_update (start site_a_active) =
     (\<lparr>status = 500, body = ErrorJson (CommandError ''quota exceeded'')\<rparr>,
      \<lparr>est = site_a_active,
       calls = [SelectStack ''site-a'' projectName (createPulumiProgram ''<h1>B</h1>''),
                SetConfig site_a_stack_b ''aws:region'' region,
                Up site_a_stack_b]\<rparr>)"
proof -
  let ?eng = "ref_engine (failing_cloud ''quota exceeded'')"
  have sel: "selectStack ?eng (params_id site_a_update) projectName
               (createPulumiProgram (body_content site_a_update)) site_a_active
               = (Inr site_a_stack_b, site_a_active)"
    by (simp add: ref_defs site_a_update_def site_a_active_def site_a_stack_b_def)
  have cfg: "setConfig ?eng site_a_stack_b ''aws:region'' region site_a_active
               = (Inr (), site_a_active)"
    by (simp add: ref_defs site_a_active_def site_a_stack_b_def)
  have upf: "up ?eng site_a_stack_b site_a_active
               = (Inl (CommandError ''quota exceeded''), site_a_active)"
    by (simp add: ref_defs site_a_active_def failing_cloud_def site_a_stack_b_def)
  from update_failure_surfaced_once [OF sel cfg upf] show ?thesis
    by (simp add: site_a_update_def)
qed

subsection \<open>Reading a deployment that has no \<^verbatim>\<open>websiteUrl\<close>\<close>

text \<open>
  C10.  When the stack exists and the engine's outputs hold no \<^verbatim>\<open>websiteUrl\<close>, the read
  \<^verbatim>\<open>outs.websiteUrl.value\<close> throws, and \<^verbatim>\<open>GET /sites/:id\<close> responds 500 with that error:
  neither the success \<^verbatim>\<open>{id, url}\<close> nor 404.
\<close>

theorem get_without_websiteUrl:
  assumes sel: "selectStack eng (params_id req) projectName emptyProgram s = (Inr h, s1)"
      and outs: "outputs eng h s1 = (Inr outs, s2)"
      and missing: "outs ''websiteUrl'' = None"
  shows "getHandler eng req (start s) =
     (\<lparr>status = 500, body = ErrorJson (TypeError ''value'')\<rparr>,
      \<lparr>est = s2, calls = [SelectStack (params_id req) projectName emptyProgram, Outputs h]\<rparr>)"
  using assms by (simp add: getHandler_def getBody_def run_defs)

text \<open>
  On the reference engine: a create whose apply fails leaves \<^verbatim>\<open>site-a\<close> created with no
  outputs, and the \<^verbatim>\<open>GET\<close> that follows is answered 500.
\<close>

theorem get_without_websiteUrl_witness:
  "createHandler (ref_engine (failing_cloud ''quota exceeded'')) site_a (start []) =
     (\<lparr>status = 500, body = ErrorJson (CommandError ''quota exceeded'')\<rparr>,
      \<lparr>est = site_a_created,
       calls = [CreateStack ''site-a'' projectName (createPulumiProgram ''<h1>A</h1>''),
                SetConfig site_a_stack ''aws:region'' region, Up site_a_stack]\<rparr>)
   \<and> getHandler (ref_engine (failing_cloud ''quota exceeded'')) site_a (start site_a_created) =
     (\<lparr>status = 500, body = ErrorJson (TypeError ''value'')\<rparr>,
      \<lparr>est = site_a_created,
       calls = [SelectStack ''site-a'' projectName emptyProgram, Outputs site_a_bare]\<rparr>)"
proof -
  let ?eng = "ref_engine (failing_cloud ''quota exceeded'')"
  have c: "createHandler ?eng site_a (start []) =
     (\<lparr>status = 500, body = ErrorJson (CommandError ''quota exceeded'')\<rparr>,
      \<lparr>est = site_a_created,
       calls = [CreateStack ''site-a'' projectName (createPulumiProgram ''<h1>A</h1>''),
                SetConfig site_a_stack ''aws:region'' region, Up site_a_stack]\<rparr>)"
    by (simp add: createHandler_def createBody_def run_defs ref_defs site_a_def
        site_a_created_def failing_cloud_def site_a_stack_def)
  have sel: "selectStack ?eng (params_id site_a) projectName emptyProgram site_a_created
               = (Inr site_a_bare, site_a_created)"
    by (simp add: ref_defs site_a_def site_a_created_def site_a_bare_def)
  have outs: "outputs ?eng site_a_bare site_a_created = (Inr Map.empty, site_a_created)"
    by (simp add: ref_defs site_a_created_def site_a_bare_def)
  have missing: "(Map.empty :: output_map) ''websiteUrl'' = None"
    by simp
  from get_without_websiteUrl [OF sel outs missing] c show ?thesis
    by (simp add: site_a_def)
qed

subsection \<open>The region is set before every apply\<close>

text \<open>
  The engine calls of \<^verbatim>\<open>POST\<close> and \<^verbatim>\<open>PUT\<close>, whatever the engine answers: the first call
  alone, the first call and \<^verbatim>\<open>setConfig\<close>, or these two and \<^verbatim>\<open>up\<close> on the same stack.
\<close>

lemma create_calls_shape:
  "\<exists>h. calls (snd (createHandler eng req (start s))) \<in>
     {[CreateStack (body_id req) projectName (createPulumiProgram (body_content req))],
      [CreateStack (body_id req) projectName (createPulumiProgram (body_content req)),
       SetConfig h ''aws:region'' region],
      [CreateStack (body_id req) projectName (createPulumiProgram (body_content req)),
       SetConfig h ''aws:region'' region, Up h]}"
  by (auto simp: createHandler_def createBody_def run_defs split: prod.splits sum.splits option.splits)

lemma update_calls_shape:
  "\<exists>h. calls (snd (updateHandler eng req (start s))) \<in>
     {[SelectStack (params_id req) projectName (createPulumiProgram (body_content req))],
      [SelectStack (params_id req) projectName (createPulumiProgram (body_content req)),
       SetConfig h ''aws:region'' region],
      [SelectStack (params_id req) projectName (createPulumiProgram (body_content req)),
       SetConfig h ''aws:region'' region, Up h]}"
  by (auto simp: updateHandler_def updateBody_def run_defs split: prod.splits sum.splits option.splits)

lemma up_after_region:
  assumes "cs \<in> {[c], [c, SetConfig h ''aws:region'' region],
                  [c, SetConfig h ''aws:region'' region, Up h]}"
      and "c \<noteq> Up k"
      and "i < length cs" and "cs ! i = Up k"
  shows "0 < i \<and> cs ! (i - 1) = SetConfig k ''aws:region'' region"
  using assms by (auto simp: nth_Cons' less_Suc_eq split: if_splits)

text \<open>
  C7.  For every engine, request and engine state: wherever the trace of \<^verbatim>\<open>POST /sites\<close>
  or of \<^verbatim>\<open>PUT /sites/:id\<close> holds a call \<^verbatim>\<open>up\<close> on a stack, the call just before it is
  \<^verbatim>\<open>setConfig("aws:region", {value: "us-west-2"})\<close> on that same stack.  The key and the
  value are constants of the source, the same for every deployment.
\<close>

theorem region_set_before_every_up:
  "(\<forall>i h. i < length (calls (snd (createHandler eng req (start s)))) \<and>
          calls (snd (createHandler eng req (start s))) ! i = Up h \<longrightarrow>
          0 < i \<and>
          calls (snd (createHandler eng req (start s))) ! (i - 1) = SetConfig h ''aws:region'' region)
 \<and> (\<forall>i h. i < length (calls (snd (updateHandler eng req (start s)))) \<and>
          calls (snd (updateHandler eng req (start s))) ! i = Up h \<longrightarrow>
          0 < i \<and>
          calls (snd (updateHandler eng req (start s))) ! (i - 1) = SetConfig h ''aws:region'' region)"
proof -
  let ?c = "calls (snd (createHandler eng req (start s)))"
  let ?u = "calls (snd (updateHandler eng req (start s)))"
  have C: "0 < i \<and> ?c ! (i - 1) = SetConfig h ''aws:region'' region"
    if a: "i < length ?c \<and> ?c ! i = Up h" for i h
  proof -
    from create_calls_shape [of eng req s] obtain h0 where sh: "?c \<in>
       {[CreateStack (body_id req) projectName (createPulumiProgram (body_content req))],
        [CreateStack (body_id req) projectName (createPulumiProgram (body_content req)),
         SetConfig h0 ''aws:region'' region],
        [CreateStack (body_id req) projectName (createPulumiProgram (body_content req)),
         SetConfig h0 ''aws:region'' region, Up h0]}" ..
    have ne: "CreateStack (body_id req) projectName (createPulumiProgram (body_content req)) \<noteq> Up h"
      by (rule call.distinct)
    show ?thesis
      by (rule up_after_region [OF sh ne a [THEN conjunct1] a [THEN conjunct2]])
  qed
  have U: "0 < i \<and> ?u ! (i - 1) = SetConfig h ''aws:region'' region"
    if a: "i < length ?u \<and> ?u ! i = Up h" for i h
  proof -
    from update_calls_shape [of eng req s] obtain h0 where sh: "?u \<in>
       {[SelectStack (params_id req) projectName (createPulumiProgram (body_content req))],
        [SelectStack (params_id req) projectName (createPulumiProgram (body_content req)),
         SetConfig h0 ''aws:region'' region],
        [SelectStack (params_id req) projectName (createPulumiProgram (body_content req)),
         SetConfig h0 ''aws:region'' region, Up h0]}" ..
    have ne: "SelectStack (params_id req) projectName (createPulumiProgram (body_content req)) \<noteq> Up h"
      by (rule call.distinct)
    show ?thesis
      by (rule up_after_region [OF sh ne a [THEN conjunct1] a [THEN conjunct2]])
  qed
  show ?thesis
    by (rule conjI; intro allI impI; (erule C | erule U))
qed

text \<open>The scenario's second step on the reference engine: \<^verbatim>\<open>site-a\<close> is updated.\<close>

lemma update_site_a:
  "updateHandler (ref_engine example_cloud) site_a_update (start site_a_active) =
     (\<lparr>status = 200, body = SiteJson ''site-a'' ''https://cdn-endpnt-site-a.azureedge.net/''\<rparr>,
      \<lparr>est = [(''site-a'', \<lparr>config = [''aws:region'' \<mapsto> region], st_outputs = site_a_outputs,
                 applied = Some (createPulumiProgram ''<h1>B</h1>''), locked = False\<rparr>)],
       calls = [SelectStack ''site-a'' projectName (createPulumiProgram ''<h1>B</h1>''),
                SetConfig site_a_stack_b ''aws:region'' region,
                Up site_a_stack_b]\<rparr>)"
  by (simp add: updateHandler_def updateBody_def run_defs ref_defs example_cloud_def
      site_a_update_def site_a_active_def site_a_outputs_def site_a_stack_b_def)

text \<open>
  On the reference engine, the successful create and update of \<^verbatim>\<open>site-a\<close> do call \<^verbatim>\<open>up\<close>,
  as their third engine call, and the second is the region's \<^verbatim>\<open>setConfig\<close>.
\<close>

theorem region_set_before_every_up_witness:
  "calls (snd (createHandler (ref_engine example_cloud) site_a (start []))) ! 2 = Up site_a_stack
   \<and> calls (snd (createHandler (ref_engine example_cloud) site_a (start []))) ! 1
        = SetConfig site_a_stack ''aws:region'' region
   \<and> calls (snd (updateHandler (ref_engine example_cloud) site_a_update (start site_a_active))) ! 2
        = Up site_a_stack_b
   \<and> calls (snd (updateHandler (ref_engine example_cloud) site_a_update (start site_a_active))) ! 1
        = SetConfig site_a_stack_b ''aws:region'' region"
proof -
  let ?c = "calls (snd (createHandler (ref_engine example_cloud) site_a (start [])))"
  let ?u = "calls (snd (updateHandler (ref_engine example_cloud) site_a_update (start site_a_active)))"
  have c: "2 < length ?c \<and> ?c ! 2 = Up site_a_stack"
    by (simp add: create_site_a)
  have u: "2 < length ?u \<and> ?u ! 2 = Up site_a_stack_b"
    by (simp add: update_site_a)
  note wc = region_set_before_every_up [of "ref_engine example_cloud" site_a "[]",
      THEN conjunct1, rule_format, OF c, THEN conjunct2]
  note wu = region_set_before_every_up [of "ref_engine example_cloud" site_a_update site_a_active,
      THEN conjunct2, rule_format, OF u, THEN conjunct2]
  have one: "2 - 1 = (1::nat)"
    by simp
  from wc wu c u show ?thesis
    unfolding one by (intro conjI) (erule conjunct2 | assumption)+
qed

subsection \<open>Deleting a deployment\<close>

text \<open>
  The reference engine's answers in the situations of C6: deleting a deployment that exists
  and has no mutation in flight, listing, and creating an identity that is absent.
\<close>

lemma ref_delete_run:
  assumes "map_of s (params_id req) = Some st" and "\<not> locked st"
      and "teardown cl (params_id req) = None"
  shows "deleteHandler (ref_engine cl) req (start s) =
     (\<lparr>status = 200, body = NoBody\<rparr>,
      \<lparr>est = AList.delete (params_id req) s,
       calls = [SelectStack (params_id req) projectName emptyProgram,
                Destroy \<lparr>h_name = params_id req, h_program = emptyProgram\<rparr>,
                RemoveStack () (params_id req)]\<rparr>)"
  using assms
  by (simp add: deleteHandler_def deleteBody_def run_defs ref_defs AList.update_conv'
      AList.delete_update_same)

lemma ref_list_run:
  "listHandler (ref_engine cl) req (start s) =
     (\<lparr>status = 200, body = IdsJson (map fst s)\<rparr>,
      \<lparr>est = s, calls = [Create \<lparr>ps_name = projectName, ps_runtime = ''nodejs''\<rparr>, ListStacks ()]\<rparr>)"
  by (simp add: listHandler_def listBody_def run_defs ref_defs case_prod_beta comp_def)

lemma ref_create_absent:
  assumes "map_of s0 (body_id creq) = None"
  shows "fst (createHandler (ref_engine cl) creq (start s0)) =
     (case deploy cl (body_id creq) (createPulumiProgram (body_content creq)) of
        Inl e \<Rightarrow>
          if e = StackAlreadyExistsError
          then \<lparr>status = 409, body = Text (''stack '' @ quoted (body_id creq) @ '' already exists'')\<rparr>
          else \<lparr>status = 500, body = ErrorJson e\<rparr>
      | Inr outs \<Rightarrow>
          (case outs ''websiteUrl'' of
             None \<Rightarrow> \<lparr>status = 500, body = ErrorJson (TypeError ''value'')\<rparr>
           | Some ov \<Rightarrow> \<lparr>status = 200, body = SiteJson (body_id creq) (ov_value ov)\<rparr>))"
  using assms
  by (simp add: createHandler_def createBody_def run_defs ref_defs
      map_add_def AList.update_conv' split: sum.splits option.splits)

text \<open>
  C6, on the reference engine.  For a deployment that exists, has no mutation in flight and
  whose teardown the cloud accepts, \<^verbatim>\<open>DELETE /sites/:id\<close> responds 200 with an empty body;
  its engine calls are \<^verbatim>\<open>selectStack\<close>, \<^verbatim>\<open>destroy\<close> and then \<^verbatim>\<open>removeStack\<close>; the identity is
  removed from the engine's registry; a \<^verbatim>\<open>GET /sites\<close> that follows does not list the
  identity; and a \<^verbatim>\<open>POST /sites\<close> for the identity that follows is answered exactly as it
  is in any engine state in which the identity is absent, with 200 and the URL when the
  cloud's apply exports one.
\<close>

theorem delete_then_recreate:
  assumes ex: "map_of s (params_id req) = Some st"
      and free: "\<not> locked st"
      and td: "teardown cl (params_id req) = None"
  shows "fst (deleteHandler (ref_engine cl) req (start s)) = \<lparr>status = 200, body = NoBody\<rparr>
       \<and> calls (snd (deleteHandler (ref_engine cl) req (start s))) =
           [SelectStack (params_id req) projectName emptyProgram,
            Destroy \<lparr>h_name = params_id req, h_program = emptyProgram\<rparr>,
            RemoveStack () (params_id req)]
       \<and> est (snd (deleteHandler (ref_engine cl) req (start s))) = AList.delete (params_id req) s
       \<and> (\<exists>ids. fst (listHandler (ref_engine cl) lreq
                      (start (est (snd (deleteHandler (ref_engine cl) req (start s))))))
                  = \<lparr>status = 200, body = IdsJson ids\<rparr>
                \<and> params_id req \<notin> set ids)
       \<and> (\<forall>creq s0. body_id creq = params_id req \<and> map_of s0 (params_id req) = None \<longrightarrow>
             fst (createHandler (ref_engine cl) creq
                    (start (est (snd (deleteHandler (ref_engine cl) req (start s))))))
             = fst (createHandler (ref_engine cl) creq (start s0)))
       \<and> (\<forall>creq outs ov. body_id creq = params_id req \<and>
             deploy cl (params_id req) (createPulumiProgram (body_content creq)) = Inr outs \<and>
             outs ''websiteUrl'' = Some ov \<longrightarrow>
             fst (createHandler (ref_engine cl) creq
                    (start (est (snd (deleteHandler (ref_engine cl) req (start s))))))
             = \<lparr>status = 200, body = SiteJson (params_id req) (ov_value ov)\<rparr>)"
proof -
  note d = ref_delete_run [OF ex free td]
  have gone: "map_of (AList.delete (params_id req) s) (params_id req) = None"
    by (simp add: AList.delete_conv')
  have notin: "params_id req \<notin> set (map fst (AList.delete (params_id req) s))"
    by (simp add: AList.delete_keys)
  have same: "fst (createHandler (ref_engine cl) creq (start (AList.delete (params_id req) s)))
                 = fst (createHandler (ref_engine cl) creq (start s0))"
    if "body_id creq = params_id req \<and> map_of s0 (params_id req) = None" for creq s0
    using that gone by (simp add: ref_create_absent)
  have ok: "fst (createHandler (ref_engine cl) creq (start (AList.delete (params_id req) s)))
                 = \<lparr>status = 200, body = SiteJson (params_id req) (ov_value ov)\<rparr>"
    if "body_id creq = params_id req \<and>
        deploy cl (params_id req) (createPulumiProgram (body_content creq)) = Inr outs \<and>
        outs ''websiteUrl'' = Some ov" for creq outs ov
    using that gone by (simp add: ref_create_absent)
  have listed: "fst (listHandler (ref_engine cl) lreq (start (AList.delete (params_id req) s)))
                  = \<lparr>status = 200, body = IdsJson (map fst (AList.delete (params_id req) s))\<rparr>"
    by (simp add: ref_list_run)
  show ?thesis
    unfolding d fst_conv snd_conv run.simps
    using listed notin same ok
    by (intro conjI exI allI impI refl) (assumption | erule same | erule ok)+
qed

text \<open>
  On the reference engine: the deployed \<^verbatim>\<open>site-a\<close> is deleted, which leaves the engine
  empty; the list is then empty, and creating \<^verbatim>\<open>site-a\<close> again is answered as the first
  create was.
\<close>

theorem delete_then_recreate_witness:
  "fst (deleteHandler (ref_engine example_cloud) site_a (start site_a_active))
     = \<lparr>status = 200, body = NoBody\<rparr>
   \<and> calls (snd (deleteHandler (ref_engine example_cloud) site_a (start site_a_active)))
     = [SelectStack ''site-a'' projectName emptyProgram, Destroy site_a_bare, RemoveStack () ''site-a'']
   \<and> est (snd (deleteHandler (ref_engine example_cloud) site_a (start site_a_active))) = []
   \<and> fst (listHandler (ref_engine example_cloud) site_a (start [])) = \<lparr>status = 200, body = IdsJson []\<rparr>
   \<and> fst (createHandler (ref_engine example_cloud) site_a
            (start (est (snd (deleteHandler (ref_engine example_cloud) site_a (start site_a_active))))))
     = \<lparr>status = 200, body = SiteJson ''site-a'' ''https://cdn-endpnt-site-a.azureedge.net/''\<rparr>"
proof -
  let ?st = "\<lparr>config = [''aws:region'' \<mapsto> region], st_outputs = site_a_outputs,
         applied = Some (createPulumiProgram ''<h1>A</h1>''), locked = False\<rparr>"
  have ex: "map_of site_a_active (params_id site_a) = Some ?st"
    by (simp add: site_a_active_def site_a_def)
  have free: "\<not> locked ?st"
    by simp
  have td: "teardown example_cloud (params_id site_a) = None"
    by (simp add: example_cloud_def)
  have p: "params_id site_a = ''site-a''"
    by (simp add: site_a_def)
  have e: "AList.delete ''site-a'' site_a_active = []"
    by (simp add: site_a_active_def)
  note t = delete_then_recreate [OF ex free td, unfolded p e]
  have dep: "body_id site_a = ''site-a'' \<and>
      deploy example_cloud ''site-a'' (createPulumiProgram (body_content site_a)) = Inr site_a_outputs \<and>
      site_a_outputs ''websiteUrl''
        = Some \<lparr>ov_value = ''https://cdn-endpnt-site-a.azureedge.net/'', ov_secret = False\<rparr>"
    by (simp add: site_a_def example_cloud_def site_a_outputs_def)
  have l: "fst (listHandler (ref_engine example_cloud) site_a (start [])) = \<lparr>status = 200, body = IdsJson []\<rparr>"
    by (simp add: ref_list_run)
  from t [THEN conjunct1] t [THEN conjunct2, THEN conjunct1]
    t [THEN conjunct2, THEN conjunct2, THEN conjunct1]
    t [THEN conjunct2, THEN conjunct2, THEN conjunct2, THEN conjunct2, THEN conjunct2,
       rule_format, OF dep] l
  show ?thesis
    by (simp add: site_a_bare_def)
qed

subsection \<open>What the catch of create distinguishes\<close>

text \<open>
  C9.  The \<^verbatim>\<open>catch\<close> of \<^verbatim>\<open>createHandler\<close> tests for \<^verbatim>\<open>StackAlreadyExistsError\<close> alone: whatever
  error \<open>e\<close> the \<^verbatim>\<open>try\<close> block throws, the response is 409 when \<open>e\<close> is that error and 500 with
  \<open>e\<close> as body otherwise.  In particular, when the engine's \<^verbatim>\<open>up\<close> rejects with
  \<^verbatim>\<open>ConcurrentUpdateError\<close>, \<^verbatim>\<open>POST /sites\<close> responds 500, while \<^verbatim>\<open>PUT\<close> under the same
  answer of \<^verbatim>\<open>up\<close>, and \<^verbatim>\<open>DELETE\<close> under the same answer of \<^verbatim>\<open>destroy\<close>, respond 409.
\<close>

theorem create_catch_mapping:
  "(createBody eng req r = (Inl e, r') \<longrightarrow>
      createHandler eng req r =
        (if e = StackAlreadyExistsError
         then \<lparr>status = 409, body = Text (''stack '' @ quoted (body_id req) @ '' already exists'')\<rparr>
         else \<lparr>status = 500, body = ErrorJson e\<rparr>, r'))
 \<and> (createStack eng (body_id req) projectName (createPulumiProgram (body_content req)) s
      = (Inr h, s1) \<and>
    setConfig eng h ''aws:region'' region s1 = (Inr (), s2) \<and>
    up eng h s2 = (Inl ConcurrentUpdateError, s3) \<longrightarrow>
      fst (createHandler eng req (start s)) = \<lparr>status = 500, body = ErrorJson ConcurrentUpdateError\<rparr>)
 \<and> (selectStack eng (params_id req) projectName (createPulumiProgram (body_content req)) s
      = (Inr h, s1) \<and>
    setConfig eng h ''aws:region'' region s1 = (Inr (), s2) \<and>
    up eng h s2 = (Inl ConcurrentUpdateError, s3) \<longrightarrow>
      status (fst (updateHandler eng req (start s))) = 409)
 \<and> (selectStack eng (params_id req) projectName emptyProgram s = (Inr h, s1) \<and>
    destroy eng h s1 = (Inl ConcurrentUpdateError, s2) \<longrightarrow>
      status (fst (deleteHandler eng req (start s))) = 409)"
  by (simp add: handler_defs run_defs)

lemmas busy_defs = busy_engine_def ref_defs

text \<open>
  With an engine that refuses every apply as concurrent: creating \<^verbatim>\<open>site-a\<close> is answered
  500, updating the deployed \<^verbatim>\<open>site-a\<close> 409, and deleting the locked \<^verbatim>\<open>site-a\<close> 409.
\<close>

theorem create_catch_mapping_witness:
  "createHandler busy_engine site_a (start []) =
     (\<lparr>status = 500, body = ErrorJson ConcurrentUpdateError\<rparr>,
      \<lparr>est = site_a_created,
       calls = [CreateStack ''site-a'' projectName (createPulumiProgram ''<h1>A</h1>''),
                SetConfig site_a_stack ''aws:region'' region, Up site_a_stack]\<rparr>)
   \<and> status (fst (updateHandler busy_engine site_a_update (start site_a_active))) = 409
   \<and> status (fst (deleteHandler busy_engine site_a_update (start site_a_locked))) = 409"
proof -
  let ?r = "\<lparr>est = site_a_created,
       calls = [CreateStack ''site-a'' projectName (createPulumiProgram ''<h1>A</h1>''),
                SetConfig site_a_stack ''aws:region'' region, Up site_a_stack]\<rparr>"
  have body: "createBody busy_engine site_a (start []) = (Inl ConcurrentUpdateError, ?r)"
    by (simp add: createBody_def run_defs busy_defs site_a_def site_a_created_def site_a_stack_def)
  have cre: "createStack busy_engine (body_id site_a) projectName
               (createPulumiProgram (body_content site_a)) []
               = (Inr site_a_stack, [(''site-a'', new_stack)])"
    by (simp add: busy_engine_def ref_engine_def ref_createStack_def site_a_def site_a_stack_def)
  have cfg: "setConfig busy_engine site_a_stack ''aws:region'' region [(''site-a'', new_stack)]
               = (Inr (), site_a_created)"
    by (simp add: busy_defs site_a_created_def site_a_stack_def)
  have busy: "up busy_engine site_a_stack site_a_created = (Inl ConcurrentUpdateError, site_a_created)"
    by (simp add: busy_defs)
  have selu: "selectStack busy_engine (params_id site_a_update) projectName
               (createPulumiProgram (body_content site_a_update)) site_a_active
               = (Inr site_a_stack_b, site_a_active)"
    by (simp add: busy_defs site_a_update_def site_a_active_def site_a_stack_b_def)
  have cfgu: "setConfig busy_engine site_a_stack_b ''aws:region'' region site_a_active
               = (Inr (), site_a_active)"
    by (simp add: busy_defs site_a_active_def site_a_stack_b_def)
  have busyu: "up busy_engine site_a_stack_b site_a_active = (Inl ConcurrentUpdateError, site_a_active)"
    by (simp add: busy_defs)
  have seld: "selectStack busy_engine (params_id site_a_update) projectName emptyProgram site_a_locked
               = (Inr site_a_bare, site_a_locked)"
    by (simp add: busy_defs site_a_update_def site_a_locked_def site_a_bare_def)
  have busyd: "destroy busy_engine site_a_bare site_a_locked = (Inl ConcurrentUpdateError, site_a_locked)"
    by (simp add: busy_defs site_a_locked_def site_a_bare_def)
  note t1 = create_catch_mapping [of busy_engine site_a "start []" ConcurrentUpdateError ?r "[]"
      site_a_stack "[(''site-a'', new_stack)]" site_a_created site_a_created]
  note t2 = create_catch_mapping [of busy_engine site_a_update "start site_a_active"
      ConcurrentUpdateError "start site_a_active" site_a_active
      site_a_stack_b site_a_active site_a_active site_a_active]
  note t3 = create_catch_mapping [of busy_engine site_a_update "start site_a_locked"
      ConcurrentUpdateError "start site_a_locked" site_a_locked
      site_a_bare site_a_locked site_a_locked site_a_locked]
  from t1 body cre cfg busy have "createHandler busy_engine site_a (start []) =
     (\<lparr>status = 500, body = ErrorJson ConcurrentUpdateError\<rparr>, ?r)"
    by simp
  moreover from t2 selu cfgu busyu
  have "status (fst (updateHandler busy_engine site_a_update (start site_a_active))) = 409"
    by simp
  moreover from t3 seld busyd
  have "status (fst (deleteHandler busy_engine site_a_update (start site_a_locked))) = 409"
    by simp
  ultimately show ?thesis
    by (intro conjI)
qed

end
